theory Spec2Isabelle
  imports Complex_Main
begin

section \<open>Text\<close>

text \<open>
  A JavaScript string is modelled by the bytes of its UTF-8 encoding, as a \<^typ>\<open>string\<close>.
  Every character the program looks for (the back-tick, the braces, the letter T) is
  ASCII, and an ASCII byte never occurs inside the encoding of another character, so
  scanning bytes finds the same places as scanning UTF-16 code units.
\<close>

definition startsWith :: "string \<Rightarrow> string \<Rightarrow> bool" where
  "startsWith s p = (take (length p) s = p)"

definition endsWith :: "string \<Rightarrow> string \<Rightarrow> bool" where
  "endsWith s p = (drop (length s - length p) s = p)"

text \<open>
  The characters matched by \<^verbatim>\<open>\s\<close> and removed by \<^verbatim>\<open>trim()\<close>: ECMAScript's WhiteSpace
  and LineTerminator, each as its UTF-8 encoding (U+0009 to U+000D, U+0020, U+00A0,
  U+1680, U+2000 to U+200A, U+2028, U+2029, U+202F, U+205F, U+3000, U+FEFF).
\<close>

definition white_space :: "string list" where
  "white_space =
     [[CHR 0x09], [CHR 0x0A], [CHR 0x0B], [CHR 0x0C], [CHR 0x0D], [CHR 0x20],
      [CHR 0xC2, CHR 0xA0],
      [CHR 0xE1, CHR 0x9A, CHR 0x80],
      [CHR 0xE2, CHR 0x80, CHR 0x80], [CHR 0xE2, CHR 0x80, CHR 0x81],
      [CHR 0xE2, CHR 0x80, CHR 0x82], [CHR 0xE2, CHR 0x80, CHR 0x83],
      [CHR 0xE2, CHR 0x80, CHR 0x84], [CHR 0xE2, CHR 0x80, CHR 0x85],
      [CHR 0xE2, CHR 0x80, CHR 0x86], [CHR 0xE2, CHR 0x80, CHR 0x87],
      [CHR 0xE2, CHR 0x80, CHR 0x88], [CHR 0xE2, CHR 0x80, CHR 0x89],
      [CHR 0xE2, CHR 0x80, CHR 0x8A],
      [CHR 0xE2, CHR 0x80, CHR 0xA8], [CHR 0xE2, CHR 0x80, CHR 0xA9],
      [CHR 0xE2, CHR 0x80, CHR 0xAF],
      [CHR 0xE2, CHR 0x81, CHR 0x9F],
      [CHR 0xE3, CHR 0x80, CHR 0x80],
      [CHR 0xEF, CHR 0xBB, CHR 0xBF]]"

text \<open>The number of bytes of the white-space character a text starts (ends) with, 0 if none.\<close>

definition space_at_start :: "string \<Rightarrow> nat" where
  "space_at_start s = (case find (startsWith s) white_space of None \<Rightarrow> 0 | Some w \<Rightarrow> length w)"

definition space_at_end :: "string \<Rightarrow> nat" where
  "space_at_end s = (case find (endsWith s) white_space of None \<Rightarrow> 0 | Some w \<Rightarrow> length w)"

lemma find_holds: "find P xs = Some x \<Longrightarrow> P x"
  by (induction xs) (simp_all split: if_splits)


lemma startsWith_length: "startsWith s p \<Longrightarrow> length p \<le> length s"
proof -
  assume "startsWith s p"
  then have "length (take (length p) s) = length p" by (simp only: startsWith_def)
  then show ?thesis by simp
qed

lemma space_at_start_le: "space_at_start s \<le> length s"
proof (cases "find (startsWith s) white_space")
  case None
  then show ?thesis by (simp add: space_at_start_def)
next
  case (Some w)
  then have "startsWith s w" by (rule find_holds)
  then have "length w \<le> length s" by (rule startsWith_length)
  with Some show ?thesis by (simp add: space_at_start_def)
qed

text \<open>\<^verbatim>\<open>\s*\<close> at the head of a text, and \<^verbatim>\<open>trimStart\<close>: drop white space while there is some.\<close>

function skip_space :: "string \<Rightarrow> string" where
  "skip_space s = (if space_at_start s = 0 then s else skip_space (drop (space_at_start s) s))"
  by pat_completeness auto
termination
proof (relation "measure length")
  show "wf (measure length)" by simp
next
  fix s :: string
  assume "space_at_start s \<noteq> 0"
  moreover have "space_at_start s \<le> length s" by (rule space_at_start_le)
  ultimately show "(drop (space_at_start s) s, s) \<in> measure length" by simp
qed

function trimEnd :: "string \<Rightarrow> string" where
  "trimEnd s = (if space_at_end s = 0 then s else trimEnd (take (length s - space_at_end s) s))"
  by pat_completeness auto
termination
proof (relation "measure length")
  show "wf (measure length)" by simp
next
  fix s :: string
  assume a: "space_at_end s \<noteq> 0"
  then obtain w where w: "find (endsWith s) white_space = Some w"
    by (auto simp: space_at_end_def split: option.splits)
  have "s \<noteq> []"
  proof
    assume "s = []"
    with w have "endsWith [] w" by (auto dest: find_holds)
    then have "w = []" by (simp add: endsWith_def)
    with a w show False by (simp add: space_at_end_def)
  qed
  with a show "(take (length s - space_at_end s) s, s) \<in> measure length" by simp
qed

declare skip_space.simps [simp del] trimEnd.simps [simp del]

lemma length_skip_space: "length (skip_space s) \<le> length s"
proof (induction s rule: skip_space.induct)
  case (1 s)
  show ?case
  proof (cases "space_at_start s = 0")
    case True
    then show ?thesis by (simp add: skip_space.simps [of s])
  next
    case False
    with "1" have "length (skip_space (drop (space_at_start s) s)) \<le> length s" by simp
    with False show ?thesis by (simp add: skip_space.simps [of s])
  qed
qed

definition trim :: "string \<Rightarrow> string" where
  "trim s = trimEnd (skip_space s)"

text \<open>
  \<^verbatim>\<open>s.replace(/FENCE\s*/g, "")\<close> for a literal, non-empty FENCE: the matches are found left
  to right, each one the fence and all the white space after it, and the search goes on
  behind the match; what is not matched is kept.
\<close>

function remove_fence :: "string \<Rightarrow> string \<Rightarrow> string" where
  "remove_fence f s =
     (if s = [] \<or> f = [] then s
      else if startsWith s f then remove_fence f (skip_space (drop (length f) s))
      else hd s # remove_fence f (tl s))"
  by pat_completeness auto
termination
proof (relation "measure (\<lambda>(f, s). length s)")
  show "wf (measure (\<lambda>(f, s). length s))" by simp
next
  fix f s :: string
  assume "\<not> (s = [] \<or> f = [])" "startsWith s f"
  then have "length (drop (length f) s) < length s" by simp
  moreover have "length (skip_space (drop (length f) s)) \<le> length (drop (length f) s)"
    by (rule length_skip_space)
  ultimately show "((f, skip_space (drop (length f) s)), (f, s)) \<in> measure (\<lambda>(f, s). length s)"
    by simp
next
  fix f s :: string
  assume "\<not> (s = [] \<or> f = [])"
  then show "((f, tl s), (f, s)) \<in> measure (\<lambda>(f, s). length s)" by simp
qed

declare remove_fence.simps [simp del]



text \<open>
  \<^verbatim>\<open>cleaned.match(/\{[\s\S]*\}/)\<close>. The pattern is an opening brace, any characters (as
  many as possible) and a closing brace. The matcher tries each start position from the
  left; at an opening brace the star takes the whole rest and gives characters back
  until a closing brace follows, so the match ends at the last closing brace.
\<close>

definition upto_last_close :: "string \<Rightarrow> string option" where
  "upto_last_close s =
     (let p = rev (dropWhile (\<lambda>c. c \<noteq> CHR ''}'') (rev s))
      in if p = [] then None else Some p)"

fun match_object :: "string \<Rightarrow> string option" where
  "match_object [] = None"
| "match_object (c # cs) =
     (if c = CHR ''{''
      then (case upto_last_close cs of
              Some b \<Rightarrow> Some (c # b)
            | None \<Rightarrow> match_object cs)
      else match_object cs)"

section \<open>JSON values\<close>

datatype json =
    JNull
  | JBool bool
  | JNum int int
  | JStr string
  | JArr "json list"
  | JObj "(string \<times> json) list"

definition code :: "char \<Rightarrow> int" where
  "code c = of_char c"

definition is_digit :: "char \<Rightarrow> bool" where
  "is_digit c = (48 \<le> code c \<and> code c \<le> 57)"

definition digit_val :: "char \<Rightarrow> int" where
  "digit_val c = code c - 48"

definition digit_char :: "int \<Rightarrow> char" where
  "digit_char d = char_of (48 + d)"

text \<open>The number a string of decimal digits denotes, and the decimal digits of a number.\<close>

definition int_of_digits :: "string \<Rightarrow> int" where
  "int_of_digits ds = foldl (\<lambda>a c. 10 * a + digit_val c) 0 ds"

function digits_of :: "int \<Rightarrow> string" where
  "digits_of n = (if n < 10 then [digit_char n] else digits_of (n div 10) @ [digit_char (n mod 10)])"
  by pat_completeness auto
termination
  by (relation "measure nat") auto

declare digits_of.simps [simp del]

function norm_dec :: "int \<Rightarrow> int \<Rightarrow> int \<times> int" where
  "norm_dec m e =
     (if m = 0 then (0, 0)
      else if m mod 10 = 0 then norm_dec (m div 10) (e + 1)
      else (m, e))"
  by pat_completeness auto
termination
  by (relation "measure (\<lambda>(m, e). nat \<bar>m\<bar>)") auto

declare norm_dec.simps [simp del]




subsection \<open>JSON.stringify\<close>

definition dq :: char where "dq = CHR 0x22"
definition bsl :: char where "bsl = CHR 0x5C"

definition hex_char :: "int \<Rightarrow> char" where
  "hex_char d = (if d < 10 then char_of (48 + d) else char_of (87 + d))"

definition quote_char :: "char \<Rightarrow> string" where
  "quote_char c =
     (if c = dq then [bsl, dq]
      else if c = bsl then [bsl, bsl]
      else if c = CHR 0x08 then [bsl, CHR ''b'']
      else if c = CHR 0x0C then [bsl, CHR ''f'']
      else if c = CHR 0x0A then [bsl, CHR ''n'']
      else if c = CHR 0x0D then [bsl, CHR ''r'']
      else if c = CHR 0x09 then [bsl, CHR ''t'']
      else if code c < 32
        then [bsl, CHR ''u'', CHR ''0'', CHR ''0'',
              hex_char (code c div 16), hex_char (code c mod 16)]
      else [c])"

definition quote :: "string \<Rightarrow> string" where
  "quote s = dq # concat (map quote_char s) @ [dq]"

text \<open>
  Number::toString for a number with the decimal digits \<open>s\<close> (the first one not 0) and
  the decimal point behind the \<open>n\<close>-th digit: plain digits up to 21 places, a leading
  \<open>0.\<close> down to \<open>10\<^sup>-\<^sup>6\<close>, the exponent form beyond.
\<close>

definition digits_to_string :: "string \<Rightarrow> int \<Rightarrow> string" where
  "digits_to_string s n =
     (let k = int (length s)
      in if k \<le> n \<and> n \<le> 21 then s @ replicate (nat (n - k)) CHR ''0''
         else if 0 < n \<and> n \<le> 21 then take (nat n) s @ ''.'' @ drop (nat n) s
         else if - 6 < n \<and> n \<le> 0 then ''0.'' @ replicate (nat (- n)) CHR ''0'' @ s
         else (let ex = n - 1;
                   es = (if ex < 0 then ''-'' else ''+'') @ digits_of \<bar>ex\<bar>
               in if k = 1 then s @ ''e'' @ es
                  else hd s # ''.'' @ tl s @ ''e'' @ es))"

definition number_to_string :: "int \<Rightarrow> int \<Rightarrow> string" where
  "number_to_string m0 e0 =
     (let (m, e) = norm_dec m0 e0;
          s = digits_of \<bar>m\<bar>
      in if m = 0 then ''0''
         else (if m < 0 then ''-'' else []) @ digits_to_string s (e + int (length s)))"

fun JSON_stringify :: "json \<Rightarrow> string"
  and stringify_elements :: "json list \<Rightarrow> string"
  and stringify_members :: "(string \<times> json) list \<Rightarrow> string"
where
  "JSON_stringify JNull = ''null''"
| "JSON_stringify (JBool b) = (if b then ''true'' else ''false'')"
| "JSON_stringify (JNum m e) = number_to_string m e"
| "JSON_stringify (JStr s) = quote s"
| "JSON_stringify (JArr vs) = ''['' @ stringify_elements vs @ '']''"
| "JSON_stringify (JObj kvs) = ''{'' @ stringify_members kvs @ ''}''"
| "stringify_elements [] = []"
| "stringify_elements [v] = JSON_stringify v"
| "stringify_elements (v # w # vs) = JSON_stringify v @ '','' @ stringify_elements (w # vs)"
| "stringify_members [] = []"
| "stringify_members [(k, v)] = quote k @ '':'' @ JSON_stringify v"
| "stringify_members ((k, v) # kv # kvs) =
     quote k @ '':'' @ JSON_stringify v @ '','' @ stringify_members (kv # kvs)"



subsection \<open>JSON.parse\<close>

definition is_json_ws :: "char \<Rightarrow> bool" where
  "is_json_ws c = (c = CHR 0x20 \<or> c = CHR 0x09 \<or> c = CHR 0x0A \<or> c = CHR 0x0D)"

definition skip_ws :: "string \<Rightarrow> string" where
  "skip_ws s = dropWhile is_json_ws s"

definition hex_val :: "char \<Rightarrow> int option" where
  "hex_val c =
     (let n = code c
      in if 48 \<le> n \<and> n \<le> 57 then Some (n - 48)
         else if 97 \<le> n \<and> n \<le> 102 then Some (n - 87)
         else if 65 \<le> n \<and> n \<le> 70 then Some (n - 55)
         else None)"

definition hex4 :: "string \<Rightarrow> int option" where
  "hex4 s =
     (case s of
        a # b # c # d # r \<Rightarrow>
          (case (hex_val a, hex_val b, hex_val c, hex_val d) of
             (Some x, Some y, Some z, Some w) \<Rightarrow> Some (((x * 16 + y) * 16 + z) * 16 + w)
           | _ \<Rightarrow> None)
      | _ \<Rightarrow> None)"

text \<open>The UTF-8 encoding of a code point (of a code unit, for an unpaired surrogate).\<close>

definition utf8 :: "int \<Rightarrow> string" where
  "utf8 n =
     (if n < 0x80 then [char_of n]
      else if n < 0x800 then [char_of (0xC0 + n div 64), char_of (0x80 + n mod 64)]
      else if n < 0x10000
        then [char_of (0xE0 + n div 4096), char_of (0x80 + (n div 64) mod 64),
              char_of (0x80 + n mod 64)]
      else [char_of (0xF0 + n div 262144), char_of (0x80 + (n div 4096) mod 64),
            char_of (0x80 + (n div 64) mod 64), char_of (0x80 + n mod 64)])"

definition simple_escape :: "char \<Rightarrow> char option" where
  "simple_escape e =
     (if e = dq then Some dq
      else if e = bsl then Some bsl
      else if e = CHR ''/'' then Some CHR ''/''
      else if e = CHR ''b'' then Some (CHR 0x08)
      else if e = CHR ''f'' then Some (CHR 0x0C)
      else if e = CHR ''n'' then Some (CHR 0x0A)
      else if e = CHR ''r'' then Some (CHR 0x0D)
      else if e = CHR ''t'' then Some (CHR 0x09)
      else None)"

definition prepend :: "string \<Rightarrow> (string \<times> string) option \<Rightarrow> (string \<times> string) option" where
  "prepend p r = (case r of None \<Rightarrow> None | Some (s, rest) \<Rightarrow> Some (p @ s, rest))"

text \<open>
  The characters of a string literal, behind its opening quote: the decoded string and
  the text behind the closing quote.
\<close>

fun parse_chars :: "string \<Rightarrow> (string \<times> string) option" where
  "parse_chars [] = None"
| "parse_chars (c # cs) =
     (if c = dq then Some ([], cs)
      else if c = bsl then
        (case cs of
           [] \<Rightarrow> None
         | e # r \<Rightarrow>
             if e = CHR ''u'' then
               (case hex4 r of
                  None \<Rightarrow> None
                | Some n \<Rightarrow>
                    if 0xD800 \<le> n \<and> n \<le> 0xDBFF \<and> startsWith (drop 4 r) [bsl, CHR ''u'']
                    then (case hex4 (drop 6 r) of
                            None \<Rightarrow> None
                          | Some m \<Rightarrow>
                              if 0xDC00 \<le> m \<and> m \<le> 0xDFFF
                              then prepend (utf8 (0x10000 + (n - 0xD800) * 1024 + (m - 0xDC00)))
                                     (parse_chars (drop 10 r))
                              else prepend (utf8 n) (parse_chars (drop 4 r)))
                    else prepend (utf8 n) (parse_chars (drop 4 r)))
             else (case simple_escape e of
                     None \<Rightarrow> None
                   | Some x \<Rightarrow> prepend [x] (parse_chars r)))
      else if code c < 32 then None
      else prepend [c] (parse_chars cs))"

definition parse_frac :: "string \<Rightarrow> (string \<times> string) option" where
  "parse_frac s =
     (if startsWith s ''.''
      then (let ds = takeWhile is_digit (tl s)
            in if ds = [] then None else Some (ds, dropWhile is_digit (tl s)))
      else Some ([], s))"

definition parse_exp :: "string \<Rightarrow> (int \<times> string) option" where
  "parse_exp s =
     (if startsWith s ''e'' \<or> startsWith s ''E''
      then (let r = tl s;
                neg = startsWith r ''-'';
                r' = (if neg \<or> startsWith r ''+'' then tl r else r);
                ds = takeWhile is_digit r'
            in if ds = [] then None
               else Some ((if neg then - int_of_digits ds else int_of_digits ds),
                          dropWhile is_digit r'))
      else Some (0, s))"

definition parse_int :: "string \<Rightarrow> (string \<times> string) option" where
  "parse_int s =
     (case s of
        [] \<Rightarrow> None
      | d # r \<Rightarrow>
          if \<not> is_digit d then None
          else if d = CHR ''0'' then Some ([d], r)
          else Some (takeWhile is_digit s, dropWhile is_digit s))"

text \<open>A number without its sign: the digits read as an integer, the exponent, the rest.\<close>

definition parse_unsigned :: "string \<Rightarrow> (int \<times> int \<times> string) option" where
  "parse_unsigned s =
     (case parse_int s of
        None \<Rightarrow> None
      | Some (ip, s1) \<Rightarrow>
          (case parse_frac s1 of
             None \<Rightarrow> None
           | Some (fp, s2) \<Rightarrow>
               (case parse_exp s2 of
                  None \<Rightarrow> None
                | Some (ex, s3) \<Rightarrow> Some (int_of_digits (ip @ fp), ex - int (length fp), s3))))"

definition parse_number :: "string \<Rightarrow> (json \<times> string) option" where
  "parse_number s =
     (let neg = startsWith s ''-''
      in case parse_unsigned (if neg then tl s else s) of
           None \<Rightarrow> None
         | Some (m, e, r) \<Rightarrow>
             (let (m', e') = norm_dec (if neg then - m else m) e
              in Some (JNum m' e', r)))"

text \<open>
  The own properties of an object are a list of key-value pairs, in the order in which
  JavaScript enumerates them: the array indices (canonical numerals below \<open>2\<^sup>3\<^sup>2 - 1\<close>)
  in ascending order first, then the other keys in the order of their creation.
  Storing into an existing key keeps its place.
\<close>

definition is_array_index :: "string \<Rightarrow> bool" where
  "is_array_index k =
     (k \<noteq> [] \<and> list_all is_digit k \<and> (k = ''0'' \<or> hd k \<noteq> CHR ''0'')
      \<and> length k \<le> 10 \<and> int_of_digits k < 4294967295)"

fun insert_index :: "string \<Rightarrow> json \<Rightarrow> (string \<times> json) list \<Rightarrow> (string \<times> json) list" where
  "insert_index k v [] = [(k, v)]"
| "insert_index k v ((k', v') # kvs) =
     (if is_array_index k' \<and> int_of_digits k' < int_of_digits k
      then (k', v') # insert_index k v kvs
      else (k, v) # (k', v') # kvs)"

fun replace_value :: "string \<Rightarrow> json \<Rightarrow> (string \<times> json) list \<Rightarrow> (string \<times> json) list" where
  "replace_value k v [] = []"
| "replace_value k v ((k', v') # kvs) =
     (if k' = k then (k, v) # kvs else (k', v') # replace_value k v kvs)"

definition put_property :: "(string \<times> json) list \<Rightarrow> string \<Rightarrow> json \<Rightarrow> (string \<times> json) list" where
  "put_property kvs k v =
     (if map_of kvs k \<noteq> None then replace_value k v kvs
      else if is_array_index k then insert_index k v kvs
      else kvs @ [(k, v)])"

definition make_object :: "(string \<times> json) list \<Rightarrow> (string \<times> json) list" where
  "make_object kvs = foldl (\<lambda>obj (k, v). put_property obj k v) [] kvs"

definition expect :: "char \<Rightarrow> string \<Rightarrow> string option" where
  "expect c s = (case s of [] \<Rightarrow> None | x # r \<Rightarrow> if x = c then Some r else None)"

text \<open>
  The recursive descent of JSON.parse. The first argument bounds the number of nested
  calls; \<open>JSON_parse\<close> starts it above the length of the text, which no descent
  exceeds, as every call but the first follows a consumed character.
\<close>

fun parse_value :: "nat \<Rightarrow> string \<Rightarrow> (json \<times> string) option"
  and parse_elements :: "nat \<Rightarrow> string \<Rightarrow> (json list \<times> string) option"
  and parse_members :: "nat \<Rightarrow> string \<Rightarrow> ((string \<times> json) list \<times> string) option"
where
  "parse_value 0 s = None"
| "parse_value (Suc n) s =
     (case s of
        [] \<Rightarrow> None
      | c # cs \<Rightarrow>
          if c = CHR ''{'' then
            (case expect CHR ''}'' (skip_ws cs) of
               Some r \<Rightarrow> Some (JObj [], r)
             | None \<Rightarrow>
                 (case parse_members n (skip_ws cs) of
                    None \<Rightarrow> None
                  | Some (kvs, r) \<Rightarrow> Some (JObj (make_object kvs), r)))
          else if c = CHR ''['' then
            (case expect CHR '']'' (skip_ws cs) of
               Some r \<Rightarrow> Some (JArr [], r)
             | None \<Rightarrow>
                 (case parse_elements n (skip_ws cs) of
                    None \<Rightarrow> None
                  | Some (vs, r) \<Rightarrow> Some (JArr vs, r)))
          else if c = dq then
            (case parse_chars cs of
               None \<Rightarrow> None
             | Some (str, r) \<Rightarrow> Some (JStr str, r))
          else if startsWith s ''true'' then Some (JBool True, drop 4 s)
          else if startsWith s ''false'' then Some (JBool False, drop 5 s)
          else if startsWith s ''null'' then Some (JNull, drop 4 s)
          else parse_number s)"
| "parse_elements 0 s = None"
| "parse_elements (Suc n) s =
     (case parse_value n s of
        None \<Rightarrow> None
      | Some (v, r) \<Rightarrow>
          (case expect CHR '','' (skip_ws r) of
             Some r' \<Rightarrow>
               (case parse_elements n (skip_ws r') of
                  None \<Rightarrow> None
                | Some (vs, r'') \<Rightarrow> Some (v # vs, r''))
           | None \<Rightarrow>
               (case expect CHR '']'' (skip_ws r) of
                  Some r' \<Rightarrow> Some ([v], r')
                | None \<Rightarrow> None)))"
| "parse_members 0 s = None"
| "parse_members (Suc n) s =
     (case expect dq s of
        None \<Rightarrow> None
      | Some cs \<Rightarrow>
          (case parse_chars cs of
             None \<Rightarrow> None
           | Some (k, r) \<Rightarrow>
               (case expect CHR '':'' (skip_ws r) of
                  None \<Rightarrow> None
                | Some r1 \<Rightarrow>
                    (case parse_value n (skip_ws r1) of
                       None \<Rightarrow> None
                     | Some (v, r2) \<Rightarrow>
                         (case expect CHR '','' (skip_ws r2) of
                            Some r3 \<Rightarrow>
                              (case parse_members n (skip_ws r3) of
                                 None \<Rightarrow> None
                               | Some (kvs, r4) \<Rightarrow> Some ((k, v) # kvs, r4))
                          | None \<Rightarrow>
                              (case expect CHR ''}'' (skip_ws r2) of
                                 Some r3 \<Rightarrow> Some ([(k, v)], r3)
                               | None \<Rightarrow> None))))))"

text \<open>\<open>None\<close> stands for the SyntaxError that JSON.parse throws.\<close>

definition JSON_parse :: "string \<Rightarrow> json option" where
  "JSON_parse s =
     (case parse_value (Suc (length s)) (skip_ws s) of
        None \<Rightarrow> None
      | Some (v, r) \<Rightarrow> if skip_ws r = [] then Some v else None)"

definition q :: "string \<Rightarrow> string" where "q s = dq # s @ [dq]"



section \<open>The entrypoint analyzeMoodboard\<close>

text \<open>
  Reading a property of a parsed value, \<open>None\<close> for undefined. Only the keys the
  program reads are meant (date, analyzed_at, raw, output, raw_response, validated,
  error, message): none of them is a property of an array, a string, a number or a
  boolean. Reading a property of null throws a TypeError, which the callers handle
  before they call this function.
\<close>

definition get_property :: "json \<Rightarrow> string \<Rightarrow> json option" where
  "get_property v k = (case v of JObj kvs \<Rightarrow> map_of kvs k | _ \<Rightarrow> None)"

definition set_property :: "json \<Rightarrow> string \<Rightarrow> json \<Rightarrow> json" where
  "set_property v k x = (case v of JObj kvs \<Rightarrow> JObj (put_property kvs k x) | _ \<Rightarrow> v)"

text \<open>The optional chain \<^verbatim>\<open>x?.k\<close>: undefined when \<open>x\<close> is undefined or null.\<close>

definition optional_get :: "json option \<Rightarrow> string \<Rightarrow> json option" where
  "optional_get x k =
     (case x of
        None \<Rightarrow> None
      | Some JNull \<Rightarrow> None
      | Some v \<Rightarrow> get_property v k)"

text \<open>ToBoolean, as \<^verbatim>\<open>if (parsedResponse.date)\<close> applies it.\<close>

definition truthy :: "json option \<Rightarrow> bool" where
  "truthy x =
     (case x of
        None \<Rightarrow> False
      | Some JNull \<Rightarrow> False
      | Some (JBool b) \<Rightarrow> b
      | Some (JNum m e) \<Rightarrow> m \<noteq> 0
      | Some (JStr s) \<Rightarrow> s \<noteq> []
      | Some (JArr vs) \<Rightarrow> True
      | Some (JObj kvs) \<Rightarrow> True)"

definition clean :: "string \<Rightarrow> string" where
  "clean response = trim (remove_fence ''```'' (remove_fence ''```json'' response))"

text \<open>
  Step 4 of the handler, the inner \<^verbatim>\<open>try\<close> block: the pair of \<^verbatim>\<open>parsedResponse\<close> and
  \<^verbatim>\<open>correctedResponse\<close> when the block is left. They start as null and the raw
  response, and stay so when nothing matches or an exception is caught.
\<close>

definition parse_and_fix :: "string \<Rightarrow> string \<Rightarrow> string \<Rightarrow> json \<times> string" where
  "parse_and_fix response currentDate currentTimestamp =
     (let cleaned = clean response
      in case match_object cleaned of
           None \<Rightarrow> (JNull, response)
         | Some jsonMatch \<Rightarrow>
             (case JSON_parse jsonMatch of
                None \<Rightarrow> (JNull, response)
              | Some JNull \<Rightarrow> (JNull, response)
              | Some parsed \<Rightarrow>
                  (let p1 = (if truthy (get_property parsed ''date'')
                             then set_property parsed ''date'' (JStr currentDate)
                             else parsed);
                       p2 = (if truthy (get_property p1 ''analyzed_at'')
                             then set_property p1 ''analyzed_at'' (JStr currentTimestamp)
                             else p1)
                   in (p2, JSON_stringify p2))))"

record coin =
  symbol :: string
  current_price :: rat
  price_change_percentage_24h :: "rat option"
  market_cap_rank :: int

record config =
  jatevoModel :: string
  jatevoApiKey :: string

record handler_input =
  limit :: rat
  vs_currency :: string

text \<open>
  What the handler meets outside itself in one invocation: the outcome of getTopCoins
  and of callGLM46 (\<open>Inl\<close> the message of the Error thrown), and the readings of the
  clock, in the order of the calls.
\<close>

record world =
  getTopCoins :: "string + coin list"
  isoString_date :: string
  isoString_timestamp :: string
  now_before :: int
  callGLM46 :: "string + string"
  now_after :: int

datatype effect = FetchTopCoins rat string | Inference string

record moodboard_output =
  date :: string
  analyzed_at :: string
  raw_response :: string
  corrected_response :: string
  parsed_data :: json
  model_used :: string
  analysis_duration_ms :: int

record handler_result =
  "output" :: moodboard_output
  model :: string
  raw :: bool

definition wrap_error :: "string \<Rightarrow> string" where
  "wrap_error message = ''Moodboard analysis failed: '' @ message"

definition handler :: "config \<Rightarrow> world \<Rightarrow> handler_input \<Rightarrow> effect list \<times> (string + handler_result)" where
  "handler cfg w input =
     (let fetched = FetchTopCoins (limit input) (vs_currency input)
      in case getTopCoins w of
           Inl message \<Rightarrow> ([fetched], Inl (wrap_error message))
         | Inr coins \<Rightarrow>
             if coins = [] then ([fetched], Inl (wrap_error ''No coin data received from CoinGecko''))
             else
               (let currentDate = takeWhile (\<lambda>c. c \<noteq> CHR ''T'') (isoString_date w);
                    currentTimestamp = isoString_timestamp w;
                    called = Inference (jatevoModel cfg)
                in case callGLM46 w of
                     Inl message \<Rightarrow> ([fetched, called], Inl (wrap_error message))
                   | Inr response \<Rightarrow>
                       (let analysisDuration = now_after w - now_before w;
                            (parsedResponse, correctedResponse) =
                               parse_and_fix response currentDate currentTimestamp
                        in ([fetched, called],
                            Inr \<lparr>output =
                                   \<lparr>date = currentDate,
                                    analyzed_at = currentTimestamp,
                                    raw_response = response,
                                    corrected_response = correctedResponse,
                                    parsed_data = parsedResponse,
                                    model_used = jatevoModel cfg,
                                    analysis_duration_ms = analysisDuration\<rparr>,
                                  model = jatevoModel cfg,
                                  raw = True\<rparr>))))"

definition fence :: "string \<Rightarrow> string" where
  "fence s = ''```json'' @ [CHR 0x0A] @ s @ [CHR 0x0A] @ ''```''"



subsection \<open>The input schema\<close>

text \<open>
  \<^verbatim>\<open>z.object({ limit: z.number().min(1).max(50).optional().default(10),
  vs_currency: z.string().optional().default("usd") })\<close> applied to the properties of
  the request body (\<open>None\<close> for an absent one). Both bounds are inclusive; a value of
  another type, null included, is an issue.
\<close>

datatype issue = invalid_type | too_small | too_big




text \<open>
  An invocation of the entrypoint by the agent kit, as far as the input goes: the body
  is parsed with the input schema and the handler runs on the parsed value
  (\<^verbatim>\<open>ctx.input\<close>); a body with issues is answered without the handler.
\<close>

datatype invocation = Invalid_input "issue list" | Failed string | Succeeded handler_result


section \<open>The consistency test\<close>

record TestResult =
  attempt :: nat
  success :: bool
  status :: int
  hasRawResponse :: "bool option"
  validated :: "bool option"
  responseTime :: int
  error :: "json option"

text \<open>
  What one trial meets: the outcome of each awaited call (\<open>Inl\<close> the message of the
  Error it rejects with), and two readings of the clock: at the start, and where the
  response time of the result is taken.
\<close>

record trial =
  startTime :: int
  walletClient :: "string + unit"
  initialResponse :: "string + int \<times> (string + json)"
  paymentHeader :: "string + string"
  paidResponse :: "string + int \<times> (string + string)"
  endTime :: int

definition ok :: "int \<Rightarrow> bool" where
  "ok st = (200 \<le> st \<and> st \<le> 299)"

text \<open>The result of the outer \<^verbatim>\<open>catch\<close>.\<close>

definition caught :: "nat \<Rightarrow> trial \<Rightarrow> string \<Rightarrow> TestResult" where
  "caught n t message =
     \<lparr>attempt = n, success = False, status = 0, hasRawResponse = None, validated = None,
      responseTime = endTime t - startTime t, error = Some (JStr message)\<rparr>"

text \<open>
  Reading a property of null throws a TypeError, which the outer \<^verbatim>\<open>catch\<close> turns into a
  result; its message is the engine's own.
\<close>

definition null_read :: string where
  "null_read = ''TypeError: null is not an object''"

definition show_int :: "int \<Rightarrow> string" where
  "show_int i = (if i < 0 then CHR ''-'' # digits_of (- i) else digits_of i)"

definition runSingleTest :: "nat \<Rightarrow> trial \<Rightarrow> TestResult" where
  "runSingleTest n t =
     (case walletClient t of
        Inl message \<Rightarrow> caught n t message
      | Inr _ \<Rightarrow>
     (case initialResponse t of
        Inl message \<Rightarrow> caught n t message
      | Inr (initialStatus, Inl message) \<Rightarrow> caught n t message
      | Inr (initialStatus, Inr initialBody) \<Rightarrow>
          if initialStatus \<noteq> 402 then
            \<lparr>attempt = n, success = False, status = initialStatus, hasRawResponse = None,
             validated = None, responseTime = endTime t - startTime t,
             error = Some (JStr (''Expected 402, got '' @ show_int initialStatus))\<rparr>
          else
     (case paymentHeader t of
        Inl message \<Rightarrow> caught n t message
      | Inr header \<Rightarrow>
     (case paidResponse t of
        Inl message \<Rightarrow> caught n t message
      | Inr (paidStatus, Inl message) \<Rightarrow> caught n t message
      | Inr (paidStatus, Inr responseText) \<Rightarrow>
     (case JSON_parse responseText of
        None \<Rightarrow>
          \<lparr>attempt = n, success = False, status = paidStatus, hasRawResponse = None,
           validated = None, responseTime = endTime t - startTime t,
           error = Some (JStr ''Failed to parse response as JSON'')\<rparr>
      | Some paidBody \<Rightarrow>
          if paidBody = JNull then caught n t null_read
          else if \<not> ok paidStatus then
            \<lparr>attempt = n, success = False, status = paidStatus, hasRawResponse = None,
             validated = None, responseTime = endTime t - startTime t,
             error =
               (let message = optional_get (get_property paidBody ''error'') ''message''
                in if truthy message then message else Some (JStr ''Request failed''))\<rparr>
          else
            (let hasRaw =
                   (get_property paidBody ''raw'' = Some (JBool True)
                    \<or> optional_get (get_property paidBody ''output'') ''raw_response'' \<noteq> None);
                 valid = (\<not> hasRaw \<and> get_property paidBody ''validated'' \<noteq> Some (JBool False))
             in \<lparr>attempt = n, success = True, status = 200, hasRawResponse = Some hasRaw,
                 validated = Some valid, responseTime = endTime t - startTime t,
                 error = None\<rparr>))))))"

text \<open>
  A JavaScript number that a division of integers may give: a quotient, or Infinity.
  (NaN only occurs in front of \<^verbatim>\<open>|| 0\<close>, which turns it into 0.)
\<close>

datatype number = Finite rat | Infinity

definition successCount :: "TestResult list \<Rightarrow> nat" where
  "successCount results = length (filter success results)"



definition avgResponseTime :: "TestResult list \<Rightarrow> number" where
  "avgResponseTime results =
     (let total = foldl (\<lambda>sum r. sum + responseTime r) 0 (filter (\<lambda>r. 0 < responseTime r) results)
      in if successCount results = 0
         then (if total = 0 then Finite 0 else Infinity)
         else Finite (of_int total / of_nat (successCount results)))"


definition run_trials :: "(nat \<Rightarrow> trial) \<Rightarrow> TestResult list" where
  "run_trials ts = map (\<lambda>i. runSingleTest i (ts i)) [1, 2, 3, 4, 5]"


section \<open>Example invocations\<close>

definition example_config :: config where
  "example_config = \<lparr>jatevoModel = ''zai-glm-4.6'', jatevoApiKey = ''key''\<rparr>"

definition example_coins :: "coin list" where
  "example_coins =
     [\<lparr>symbol = ''btc'', current_price = 100000, price_change_percentage_24h = Some (-2),
       market_cap_rank = 1\<rparr>]"

definition example_world :: "string \<Rightarrow> world" where
  "example_world reply =
     \<lparr>getTopCoins = Inr example_coins,
      isoString_date = ''2025-11-17T09:30:00.000Z'',
      isoString_timestamp = ''2025-11-17T09:30:00.001Z'',
      now_before = 1000,
      callGLM46 = Inr reply,
      now_after = 3500\<rparr>"

definition example_input :: handler_input where
  "example_input = \<lparr>limit = 10, vs_currency = ''usd''\<rparr>"

definition example_alt_config :: config where
  "example_alt_config = \<lparr>jatevoModel = ''deepseek-ai/DeepSeek-R1-0528'', jatevoApiKey = ''key''\<rparr>"

definition example_slow_world :: "string \<Rightarrow> world" where
  "example_slow_world reply = (example_world reply)\<lparr>now_after := 9000\<rparr>"


definition stale_reply :: string where
  "stale_reply =
     fence (''{'' @ q ''date'' @ '':'' @ q ''2023-01-01'' @ '','' @ q ''coins'' @ '':[],''
            @ q ''analyzed_at'' @ '':'' @ q ''2023-01-01T00:00:00Z'' @ ''}'')"

definition raw_body :: string where
  "raw_body =
     ''{'' @ q ''output'' @ '':{'' @ q ''raw_response'' @ '':'' @ q ''I cannot help with that.''
     @ ''},'' @ q ''model'' @ '':'' @ q ''zai-glm-4.6'' @ '','' @ q ''raw'' @ '':true}''"

definition paid_trial :: "int \<Rightarrow> string \<Rightarrow> trial" where
  "paid_trial paidStatus body =
     \<lparr>startTime = 1000,
      walletClient = Inr (),
      initialResponse = Inr (402, Inr (JObj [(''x402Version'', JNum 1 0), (''accepts'', JArr [])])),
      paymentHeader = Inr ''signed'',
      paidResponse = Inr (paidStatus, Inr body),
      endTime = 1100\<rparr>"

definition unchallenged_trial :: trial where
  "unchallenged_trial =
     \<lparr>startTime = 1000,
      walletClient = Inr (),
      initialResponse = Inr (500, Inr (JObj [])),
      paymentHeader = Inr ''signed'',
      paidResponse = Inl ''not reached'',
      endTime = 1100\<rparr>"


definition one_failed_trials :: "nat \<Rightarrow> trial" where
  "one_failed_trials i = (if i = 1 then unchallenged_trial else paid_trial 200 raw_body)"

section \<open>Values that JSON.parse returns\<close>







subsection \<open>The output schema\<close>









subsection \<open>Example objects\<close>



section \<open>Properties\<close>

subsection \<open>What the handler returns\<close>

lemma handler_Inr:
  assumes "handler cfg w input = (effects, Inr r)"
  shows "\<exists>coins response. getTopCoins w = Inr coins \<and> coins \<noteq> [] \<and> callGLM46 w = Inr response
           \<and> effects = [FetchTopCoins (limit input) (vs_currency input), Inference (jatevoModel cfg)]
           \<and> r = \<lparr>output =
                   \<lparr>date = takeWhile (\<lambda>c. c \<noteq> CHR ''T'') (isoString_date w),
                    analyzed_at = isoString_timestamp w,
                    raw_response = response,
                    corrected_response =
                      snd (parse_and_fix response (takeWhile (\<lambda>c. c \<noteq> CHR ''T'') (isoString_date w))
                             (isoString_timestamp w)),
                    parsed_data =
                      fst (parse_and_fix response (takeWhile (\<lambda>c. c \<noteq> CHR ''T'') (isoString_date w))
                             (isoString_timestamp w)),
                    model_used = jatevoModel cfg,
                    analysis_duration_ms = now_after w - now_before w\<rparr>,
                  model = jatevoModel cfg,
                  raw = True\<rparr>"
  using assms
  by (auto simp: handler_def Let_def split: sum.splits if_splits prod.splits)

lemma example_refusal:
  "handler example_config (example_world ''I cannot help with that.'') example_input =
     ([FetchTopCoins 10 ''usd'', Inference ''zai-glm-4.6''],
      Inr \<lparr>output =
             \<lparr>date = ''2025-11-17'',
              analyzed_at = ''2025-11-17T09:30:00.001Z'',
              raw_response = ''I cannot help with that.'',
              corrected_response = ''I cannot help with that.'',
              parsed_data = JNull,
              model_used = ''zai-glm-4.6'',
              analysis_duration_ms = 2500\<rparr>,
            model = ''zai-glm-4.6'',
            raw = True\<rparr>)"
  by code_simp

text \<open>
  C10. Whenever the handler returns instead of throwing, the value it returns has
  \<open>raw\<close> true, \<open>raw_response\<close> is the reply of the model character for character,
  \<open>model_used\<close> is the configured model name, and \<open>date\<close> and \<open>analyzed_at\<close> are the
  readings of the clock taken before the inference call (the date being the part of the
  ISO string in front of the letter T). Nothing is assumed about the reply: it may fail
  to parse or to conform to the schema.
\<close>

theorem handler_result_provenance:
  assumes "handler cfg w input = (effects, Inr r)"
  shows "raw r = True
         \<and> callGLM46 w = Inr (raw_response (output r))
         \<and> model_used (output r) = jatevoModel cfg
         \<and> date (output r) = takeWhile (\<lambda>c. c \<noteq> CHR ''T'') (isoString_date w)
         \<and> analyzed_at (output r) = isoString_timestamp w"
  using handler_Inr [OF assms] by auto

theorem handler_result_provenance_witness:
  "\<exists>effects r. handler example_config (example_world ''I cannot help with that.'') example_input
                   = (effects, Inr r)
     \<and> raw r = True
     \<and> raw_response (output r) = ''I cannot help with that.''
     \<and> model_used (output r) = ''zai-glm-4.6''
     \<and> date (output r) = ''2025-11-17''
     \<and> analyzed_at (output r) = ''2025-11-17T09:30:00.001Z''"
  using handler_result_provenance [OF example_refusal] example_refusal
  by (simp add: example_config_def example_world_def)

subsection \<open>Extraction of the JSON object\<close>


lemma upto_last_close_None:
  assumes "CHR ''}'' \<notin> set s"
  shows "upto_last_close s = None"
proof -
  have "dropWhile (\<lambda>x. x \<noteq> CHR ''}'') (rev s) = []"
    using assms by auto
  then show ?thesis by (simp add: upto_last_close_def)
qed

lemma match_object_no_open:
  "CHR ''{'' \<notin> set s \<Longrightarrow> match_object s = None"
  by (induction s) auto




lemma parse_and_fix_no_match:
  "match_object (clean response) = None \<Longrightarrow> parse_and_fix response d t = (JNull, response)"
  by (simp add: parse_and_fix_def)

lemma parse_and_fix_syntax_error:
  "match_object (clean response) = Some m \<Longrightarrow> JSON_parse m = None \<Longrightarrow>
   parse_and_fix response d t = (JNull, response)"
  by (simp add: parse_and_fix_def)





subsection \<open>The degraded path\<close>

lemma handler_returns:
  assumes "getTopCoins w = Inr coins" and "coins \<noteq> []" and "callGLM46 w = Inr response"
  shows "handler cfg w input =
           ([FetchTopCoins (limit input) (vs_currency input), Inference (jatevoModel cfg)],
            Inr \<lparr>output =
                   \<lparr>date = takeWhile (\<lambda>c. c \<noteq> CHR ''T'') (isoString_date w),
                    analyzed_at = isoString_timestamp w,
                    raw_response = response,
                    corrected_response =
                      snd (parse_and_fix response (takeWhile (\<lambda>c. c \<noteq> CHR ''T'') (isoString_date w))
                             (isoString_timestamp w)),
                    parsed_data =
                      fst (parse_and_fix response (takeWhile (\<lambda>c. c \<noteq> CHR ''T'') (isoString_date w))
                             (isoString_timestamp w)),
                    model_used = jatevoModel cfg,
                    analysis_duration_ms = now_after w - now_before w\<rparr>,
                  model = jatevoModel cfg,
                  raw = True\<rparr>)"
  using assms by (simp add: handler_def Let_def split: prod.splits)

text \<open>
  C4. The step that parses the reply is a total function of the reply: for every string
  that the inference call returns, the handler returns a result (it does not throw),
  whose \<open>raw_response\<close> is the reply verbatim and which is marked \<open>raw\<close>. When nothing
  matches in the cleaned reply, or JSON.parse rejects the match, \<open>parsed_data\<close> is null
  and \<open>corrected_response\<close> is the reply verbatim as well.
\<close>

theorem degraded_path_total:
  assumes "getTopCoins w = Inr coins" and "coins \<noteq> []" and "callGLM46 w = Inr response"
  shows "\<exists>effects r. handler cfg w input = (effects, Inr r)
           \<and> raw_response (output r) = response
           \<and> raw r
           \<and> ((match_object (clean response) = None
                \<or> (\<exists>m. match_object (clean response) = Some m \<and> JSON_parse m = None))
               \<longrightarrow> parsed_data (output r) = JNull \<and> corrected_response (output r) = response)"
proof -
  let ?d = "takeWhile (\<lambda>c. c \<noteq> CHR ''T'') (isoString_date w)"
  let ?t = "isoString_timestamp w"
  have "(match_object (clean response) = None
          \<or> (\<exists>m. match_object (clean response) = Some m \<and> JSON_parse m = None))
        \<longrightarrow> parse_and_fix response ?d ?t = (JNull, response)"
    by (auto simp: parse_and_fix_no_match parse_and_fix_syntax_error)
  then show ?thesis
    unfolding handler_returns [OF assms] by auto
qed

lemma example_world_simps:
  "getTopCoins (example_world reply) = Inr example_coins"
  "callGLM46 (example_world reply) = Inr reply"
  "example_coins \<noteq> []"
  by (simp_all add: example_world_def example_coins_def)

lemma refusal_no_match: "match_object (clean ''I cannot help with that.'') = None"
  by code_simp

theorem degraded_path_total_witness:
  "\<exists>effects r. handler example_config (example_world ''I cannot help with that.'') example_input
                   = (effects, Inr r)
     \<and> raw_response (output r) = ''I cannot help with that.''
     \<and> raw r
     \<and> parsed_data (output r) = JNull
     \<and> corrected_response (output r) = ''I cannot help with that.''"
  using degraded_path_total [OF example_world_simps(1) [of "''I cannot help with that.''"]
      example_world_simps(3) example_world_simps(2), where cfg = example_config
      and input = example_input]
    refusal_no_match
  by simp

lemma empty_reply_degraded: "parse_and_fix [] d t = (JNull, [])"
proof -
  have "match_object (clean []) = None" by code_simp
  then show ?thesis by (rule parse_and_fix_no_match)
qed

lemma truncated_reply_degraded:
  "parse_and_fix (''{'' @ q ''date'' @ '': '' @ q ''2025'') d t
     = (JNull, ''{'' @ q ''date'' @ '': '' @ q ''2025'')"
proof -
  have "match_object (clean (''{'' @ q ''date'' @ '': '' @ q ''2025'')) = None" by code_simp
  then show ?thesis by (rule parse_and_fix_no_match)
qed


subsection \<open>Determinism\<close>

text \<open>
  C9. Two runs that meet the same reply and the same clock strings return the same
  normalized fields (\<open>date\<close>, \<open>analyzed_at\<close>, \<open>raw_response\<close>, \<open>corrected_response\<close>,
  \<open>parsed_data\<close>), whatever else differs between them: the request, the coins, the
  configured model, the elapsed time. When the model name and the elapsed time agree
  too, the two results are equal as a whole.
\<close>

theorem normalization_deterministic:
  assumes "handler cfg1 w1 input1 = (effects1, Inr r1)"
    and "handler cfg2 w2 input2 = (effects2, Inr r2)"
    and "callGLM46 w1 = callGLM46 w2"
    and "isoString_date w1 = isoString_date w2"
    and "isoString_timestamp w1 = isoString_timestamp w2"
  shows "date (output r1) = date (output r2)
         \<and> analyzed_at (output r1) = analyzed_at (output r2)
         \<and> raw_response (output r1) = raw_response (output r2)
         \<and> corrected_response (output r1) = corrected_response (output r2)
         \<and> parsed_data (output r1) = parsed_data (output r2)
         \<and> (jatevoModel cfg1 = jatevoModel cfg2
              \<and> now_after w1 - now_before w1 = now_after w2 - now_before w2
              \<longrightarrow> r1 = r2)"
  using handler_Inr [OF assms(1)] handler_Inr [OF assms(2)] assms(3-5)
  by auto

theorem normalization_deterministic_witness:
  "\<exists>effects1 r1 effects2 r2.
      handler example_config (example_world stale_reply) example_input = (effects1, Inr r1)
    \<and> handler example_alt_config (example_slow_world stale_reply) example_input = (effects2, Inr r2)
    \<and> analysis_duration_ms (output r1) \<noteq> analysis_duration_ms (output r2)
    \<and> date (output r1) = date (output r2)
    \<and> analyzed_at (output r1) = analyzed_at (output r2)
    \<and> raw_response (output r1) = raw_response (output r2)
    \<and> corrected_response (output r1) = corrected_response (output r2)
    \<and> parsed_data (output r1) = parsed_data (output r2)"
proof -
  obtain e1 r1 where h1: "handler example_config (example_world stale_reply) example_input = (e1, Inr r1)"
    and d1: "analysis_duration_ms (output r1) = 2500"
    using handler_returns [OF example_world_simps(1) [of stale_reply] example_world_simps(3)
        example_world_simps(2), where cfg = example_config and input = example_input]
    by (simp add: example_world_def)
  obtain e2 r2 where h2: "handler example_alt_config (example_slow_world stale_reply) example_input = (e2, Inr r2)"
    and d2: "analysis_duration_ms (output r2) = 8000"
    using handler_returns [of "example_slow_world stale_reply" example_coins stale_reply
        example_alt_config example_input]
    by (simp add: example_world_def example_slow_world_def example_coins_def)
  have "callGLM46 (example_world stale_reply) = callGLM46 (example_slow_world stale_reply)"
    "isoString_date (example_world stale_reply) = isoString_date (example_slow_world stale_reply)"
    "isoString_timestamp (example_world stale_reply) = isoString_timestamp (example_slow_world stale_reply)"
    by (simp_all add: example_slow_world_def)
  from normalization_deterministic [OF h1 h2 this] h1 h2 d1 d2 show ?thesis
    by simp
qed

subsection \<open>Overwriting the timestamps\<close>












subsection \<open>The bound on the limit\<close>









subsection \<open>The consistency test\<close>






lemma raw_trial_result:
  "runSingleTest n (paid_trial 200 raw_body) =
     \<lparr>attempt = n, success = True, status = 200, hasRawResponse = Some True,
      validated = Some False, responseTime = 100, error = None\<rparr>"
  by code_simp


lemma unchallenged_trial_result:
  "runSingleTest n unchallenged_trial =
     \<lparr>attempt = n, success = False, status = 500, hasRawResponse = None,
      validated = None, responseTime = 100,
      error = Some (JStr ''Expected 402, got 500'')\<rparr>"
  by code_simp



text \<open>
  C5. The reported average divides by the number of successful trials, but it sums the
  response times of all trials with a positive response time, the failed ones included.
  With one trial that fails after 100 ms and four that succeed in 100 ms each, the mean
  over the successful trials is 100 and the reported average is 125.
\<close>

theorem average_includes_failed_trials:
  "avgResponseTime (run_trials one_failed_trials) = Finite 125
   \<and> successCount (run_trials one_failed_trials) = 4
   \<and> of_int (sum_list (map responseTime (filter success (run_trials one_failed_trials))))
      / of_nat (successCount (run_trials one_failed_trials))
     = (100 :: rat)"
  by (simp add: avgResponseTime_def successCount_def run_trials_def one_failed_trials_def
      raw_trial_result unchallenged_trial_result)

section \<open>Serialization and parsing\<close>

subsection \<open>Decimal digits\<close>












subsection \<open>Normal form of a decimal\<close>





subsection \<open>Numbers are read back\<close>













subsection \<open>Strings are read back\<close>








subsection \<open>Objects are rebuilt in their order\<close>












subsection \<open>Values are read back\<close>












subsection \<open>Cleaning a reply without a fence inside\<close>

lemma startsWith_Nil: "startsWith s [] "
  by (simp add: startsWith_def)







subsection \<open>White space at the ends\<close>











subsection \<open>Cleaning a serialized object\<close>











subsection \<open>Round trip of a conforming object\<close>










end
